theory Spec2Isabelle
  imports Main "HOL-Library.Word"
begin

section \<open>The RSA key object of src/encryption/rsa.c\<close>

text \<open>
  The module wraps an OpenSSL key handle, a big-number scratch value and a digest context
  in \<open>struct s_rsa\<close>, together with the two flags \<open>isvalid\<close> and \<open>isprivate\<close>.
  Every function of rsa.c is translated below, statement by statement. What rsa.c takes
  from outside (libcrypto, the header rsa.h with its two size constants, and
  \<open>cryptoCalculateSHA256\<close> of crypto.h) is a parameter of the model: the record
  \<open>extern\<close>. The state of the library (its heap of keys, big numbers, BIOs and digest
  contexts, the file system, the random generator) is an abstract world \<open>'w\<close>, passed
  to every primitive that can change it and returned updated.

  C \<open>int\<close> values are modelled as \<open>int\<close>: rsa.c only compares and returns them and
  performs no arithmetic on them. The one reinterpretation, the \<open>unsigned int\<close> written
  by \<open>EVP_SignFinal\<close> and read back as \<open>int\<close>, is a 32-bit word read with \<open>sint\<close>.
  Calls of the logging macros \<open>debug\<close> and \<open>debugf\<close> have no effect on the object
  and are left out.
\<close>

subsection \<open>Data\<close>

type_synonym byte = "8 word"

text \<open>Pointers to library objects are addresses; address 0 is the null pointer.\<close>

type_synonym ptr = nat

definition NULL :: ptr where
  "NULL = 0"

text \<open>
  A pointer to caller memory (\<open>unsigned char *\<close>) is \<open>None\<close> when it is null and
  \<open>Some bs\<close> when it points to the bytes \<open>bs\<close>.
\<close>

type_synonym buffer = "byte list option"

record s_rsa =
  isvalid :: int
  isprivate :: int
  key :: ptr
  md :: ptr
  bn :: ptr

text \<open>
  The second argument of \<open>i2d_PublicKey\<close>: a null pointer asks for the length only,
  a pointer to a buffer pointer asks for the encoding to be stored there.
\<close>

datatype i2d_out = SizeOnly | WriteOut

definition RSA_F4 :: nat where
  "RSA_F4 = 65537"

definition EVP_PKEY_RSA :: int where
  "EVP_PKEY_RSA = 6"

subsection \<open>What rsa.c takes from outside\<close>

text \<open>
  Each primitive is a function of its arguments and of the world. A primitive that takes
  the address of a pointer variable (\<open>&rsa->key\<close>, \<open>&rsakey\<close>) returns the new value of
  that variable next to its own result. A primitive that fills a caller buffer returns
  the bytes it stored.
\<close>

record 'w extern =
  RSA_MINSIZE :: int
  RSA_MAXSIZE :: int
  cryptoCalculateSHA256 :: "int \<Rightarrow> byte list \<Rightarrow> int \<Rightarrow> 'w \<Rightarrow> (int \<times> byte list) \<times> 'w"
  i2d_PublicKey :: "ptr \<Rightarrow> i2d_out \<Rightarrow> 'w \<Rightarrow> int \<times> byte list"
  d2i_PublicKey :: "int \<Rightarrow> ptr \<Rightarrow> byte list \<Rightarrow> int \<Rightarrow> 'w \<Rightarrow> ptr \<times> 'w"
  OpenSSL_add_all_algorithms :: "'w \<Rightarrow> 'w"
  EVP_PKEY_new :: "'w \<Rightarrow> ptr \<times> 'w"
  EVP_PKEY_free :: "ptr \<Rightarrow> 'w \<Rightarrow> 'w"
  EVP_PKEY_get1_RSA :: "ptr \<Rightarrow> 'w \<Rightarrow> ptr \<times> 'w"
  EVP_PKEY_assign_RSA :: "ptr \<Rightarrow> ptr \<Rightarrow> 'w \<Rightarrow> int \<times> 'w"
  EVP_PKEY_size :: "ptr \<Rightarrow> 'w \<Rightarrow> int"
  BIO_new_file :: "string \<Rightarrow> string \<Rightarrow> 'w \<Rightarrow> ptr \<times> 'w"
  BIO_new_mem_buf :: "byte list \<Rightarrow> int \<Rightarrow> 'w \<Rightarrow> ptr \<times> 'w"
  BIO_free :: "ptr \<Rightarrow> 'w \<Rightarrow> 'w"
  PEM_read_bio_PrivateKey :: "ptr \<Rightarrow> ptr \<Rightarrow> 'w \<Rightarrow> (ptr \<times> ptr) \<times> 'w"
  PEM_read_bio_RSA_PUBKEY :: "ptr \<Rightarrow> ptr \<Rightarrow> 'w \<Rightarrow> (ptr \<times> ptr) \<times> 'w"
  PEM_read_bio_RSAPrivateKey :: "ptr \<Rightarrow> ptr \<Rightarrow> 'w \<Rightarrow> (ptr \<times> ptr) \<times> 'w"
  RSA_new :: "'w \<Rightarrow> ptr \<times> 'w"
  RSA_free :: "ptr \<Rightarrow> 'w \<Rightarrow> 'w"
  RSA_check_key :: "ptr \<Rightarrow> 'w \<Rightarrow> int \<times> 'w"
  RSA_generate_key_ex :: "ptr \<Rightarrow> int \<Rightarrow> ptr \<Rightarrow> 'w \<Rightarrow> int \<times> 'w"
  BN_new :: "'w \<Rightarrow> ptr \<times> 'w"
  BN_free :: "ptr \<Rightarrow> 'w \<Rightarrow> 'w"
  BN_zero :: "ptr \<Rightarrow> 'w \<Rightarrow> 'w"
  BN_set_word :: "ptr \<Rightarrow> nat \<Rightarrow> 'w \<Rightarrow> int \<times> 'w"
  EVP_MD_CTX_create :: "'w \<Rightarrow> ptr \<times> 'w"
  EVP_SignInit_ex :: "ptr \<Rightarrow> 'w \<Rightarrow> int \<times> 'w"
  EVP_SignUpdate :: "ptr \<Rightarrow> byte list \<Rightarrow> int \<Rightarrow> 'w \<Rightarrow> int \<times> 'w"
  EVP_SignFinal :: "ptr \<Rightarrow> ptr \<Rightarrow> 'w \<Rightarrow> (int \<times> byte list \<times> 32 word) \<times> 'w"
  EVP_VerifyInit_ex :: "ptr \<Rightarrow> 'w \<Rightarrow> int \<times> 'w"
  EVP_VerifyUpdate :: "ptr \<Rightarrow> byte list \<Rightarrow> int \<Rightarrow> 'w \<Rightarrow> int \<times> 'w"
  EVP_VerifyFinal :: "ptr \<Rightarrow> byte list \<Rightarrow> int \<Rightarrow> ptr \<Rightarrow> 'w \<Rightarrow> int \<times> 'w"

subsection \<open>Queries\<close>

definition rsaIsValid :: "s_rsa \<Rightarrow> int" where
  "rsaIsValid rsa = isvalid rsa"

definition rsaIsPrivate :: "s_rsa \<Rightarrow> int" where
  "rsaIsPrivate rsa = isprivate rsa"

definition rsaGetDERSize :: "'w extern \<Rightarrow> s_rsa \<Rightarrow> 'w \<Rightarrow> int" where
  "rsaGetDERSize L rsa w =
     (let len = fst (i2d_PublicKey L (key rsa) SizeOnly w)
      in if len > 0 then len else 0)"

text \<open>
  \<open>rsaGetDER\<close> returns its result and the bytes stored in \<open>buf\<close> (none when the
  encoder is not called).
\<close>

definition rsaGetDER :: "'w extern \<Rightarrow> int \<Rightarrow> s_rsa \<Rightarrow> 'w \<Rightarrow> int \<times> byte list" where
  "rsaGetDER L buf_size rsa w =
     (let ptlen = rsaGetDERSize L rsa w
      in if ptlen > RSA_MINSIZE L \<and> ptlen < buf_size
         then (let (len, out) = i2d_PublicKey L (key rsa) WriteOut w
               in if len > 0 then (len, out) else (0, out))
         else (0, []))"

definition rsaGetFingerprint ::
  "'w extern \<Rightarrow> int \<Rightarrow> s_rsa \<Rightarrow> 'w \<Rightarrow> (int \<times> byte list) \<times> 'w" where
  "rsaGetFingerprint L buf_size rsa w =
     (let (dersize, derbuf) = rsaGetDER L (RSA_MAXSIZE L) rsa w
      in if dersize > 0 then cryptoCalculateSHA256 L buf_size derbuf dersize w
         else ((0, []), w))"

definition rsaSignSize :: "'w extern \<Rightarrow> s_rsa \<Rightarrow> 'w \<Rightarrow> int" where
  "rsaSignSize L rsa w = EVP_PKEY_size L (key rsa) w"

subsection \<open>Reset and create\<close>

definition rsaReset :: "s_rsa \<Rightarrow> s_rsa" where
  "rsaReset rsa = rsa\<lparr>isvalid := 0, isprivate := 0\<rparr>"

definition rsaCreate :: "'w extern \<Rightarrow> s_rsa \<Rightarrow> 'w \<Rightarrow> int \<times> s_rsa \<times> 'w" where
  "rsaCreate L rsa w =
     (let (b, w1) = BN_new L w;
          rsa1 = rsa\<lparr>bn := b\<rparr>
      in if bn rsa1 = NULL then (0, rsa1, BN_free L (bn rsa1) w1)
         else
           (let w2 = BN_zero L (bn rsa1) w1;
                (k, w3) = EVP_PKEY_new L w2;
                rsa2 = rsa1\<lparr>key := k\<rparr>
            in if key rsa2 \<noteq> NULL
               then (let (m, w4) = EVP_MD_CTX_create L w3;
                         rsa3 = rsa2\<lparr>md := m\<rparr>
                     in if md rsa3 \<noteq> NULL then (1, rsaReset rsa3, w4)
                        else (0, rsa3, EVP_PKEY_free L (key rsa3) w4))
               else (0, rsa2, w3)))"

subsection \<open>Key acquisition\<close>

definition rsaImportKey :: "'w extern \<Rightarrow> s_rsa \<Rightarrow> string \<Rightarrow> 'w \<Rightarrow> int \<times> s_rsa \<times> 'w" where
  "rsaImportKey L rsa keypath w =
     (let w1 = OpenSSL_add_all_algorithms L w;
          (k, w2) = EVP_PKEY_new L w1;
          rsa1 = rsa\<lparr>key := k\<rparr>;
          (inp, w3) = BIO_new_file L keypath ''r'' w2
      in if inp = NULL then (0, rsa1, w3)
         else
           (let ((r, k'), w4) = PEM_read_bio_PrivateKey L inp (key rsa1) w3;
                rsa2 = rsa1\<lparr>key := k'\<rparr>;
                w5 = BIO_free L inp w4;
                (rsakey, w6) = EVP_PKEY_get1_RSA L (key rsa2) w5;
                (chk, w7) = RSA_check_key L rsakey w6
            in if chk \<noteq> 1 then (0, rsa2, w7)
               else (1, rsa2\<lparr>isvalid := 1, isprivate := 1\<rparr>, w7)))"

definition rsaGenerate :: "'w extern \<Rightarrow> s_rsa \<Rightarrow> int \<Rightarrow> 'w \<Rightarrow> int \<times> s_rsa \<times> 'w" where
  "rsaGenerate L rsa key_size w =
     (let rsa1 = rsa\<lparr>isvalid := 0\<rparr>
      in if key_size \<le> 0 then (0, rsa1, w)
         else
           (let (rsakey, w1) = RSA_new L w
            in if rsakey = NULL then (0, rsa1, w1)
               else
                 (let (r2, w2) = BN_set_word L (bn rsa1) RSA_F4 w1
                  in if r2 = 0 then (0, rsa1, w2)
                     else
                       (let (r3, w3) = RSA_generate_key_ex L rsakey key_size (bn rsa1) w2
                        in if r3 = 0 then (0, rsa1, w3)
                           else
                             (let (chk, w4) = RSA_check_key L rsakey w3
                              in if chk \<noteq> 1 then (0, rsa1, w4)
                                 else
                                   (let (r5, w5) = EVP_PKEY_assign_RSA L (key rsa1) rsakey w4
                                    in if r5 = 0 then (0, rsa1, w5)
                                       else (1, rsa1\<lparr>isvalid := 1, isprivate := 1\<rparr>, w5)))))))"

definition rsaLoadDER :: "'w extern \<Rightarrow> s_rsa \<Rightarrow> buffer \<Rightarrow> int \<Rightarrow> 'w \<Rightarrow> int \<times> s_rsa \<times> 'w" where
  "rsaLoadDER L rsa pubkey pubkey_size w =
     (let rsa1 = rsa\<lparr>isvalid := 0\<rparr>
      in if pubkey_size > RSA_MINSIZE L
         then (case pubkey of
                 None \<Rightarrow> (0, rsa1, w)
               | Some d2ikey \<Rightarrow>
                   (let (p, w1) = d2i_PublicKey L EVP_PKEY_RSA (key rsa1) d2ikey pubkey_size w
                    in if p \<noteq> NULL then (1, rsa1\<lparr>isvalid := 1, isprivate := 0\<rparr>, w1)
                       else (0, rsa1, w1)))
         else (0, rsa1, w))"

definition rsaLoadPEM :: "'w extern \<Rightarrow> s_rsa \<Rightarrow> buffer \<Rightarrow> int \<Rightarrow> 'w \<Rightarrow> int \<times> s_rsa \<times> 'w" where
  "rsaLoadPEM L rsa pubkey pubkey_size w =
     (let rsa1 = rsa\<lparr>isvalid := 0\<rparr>
      in if pubkey_size > 0
         then (case pubkey of
                 None \<Rightarrow> (0, rsa1, w)
               | Some pem \<Rightarrow>
                   (let (biopub, w1) = BIO_new_mem_buf L pem pubkey_size w
                    in if biopub \<noteq> NULL
                       then (let (rsakey, w2) = RSA_new L w1
                             in if rsakey \<noteq> NULL
                                then (let ((r, rsakey'), w3) =
                                            PEM_read_bio_RSA_PUBKEY L biopub rsakey w2
                                      in if r \<noteq> NULL
                                         then (let (a, w4) =
                                                     EVP_PKEY_assign_RSA L (key rsa1) rsakey' w3
                                               in (1, rsa1\<lparr>isvalid := 1, isprivate := 0\<rparr>,
                                                   BIO_free L biopub w4))
                                         else (0, rsa1, BIO_free L biopub (RSA_free L rsakey' w3)))
                                else (0, rsa1, BIO_free L biopub w2))
                       else (0, rsa1, w1)))
         else (0, rsa1, w))"

definition rsaLoadPrivatePEM ::
  "'w extern \<Rightarrow> s_rsa \<Rightarrow> buffer \<Rightarrow> int \<Rightarrow> 'w \<Rightarrow> int \<times> s_rsa \<times> 'w" where
  "rsaLoadPrivatePEM L rsa privkey privkey_size w =
     (let rsa1 = rsa\<lparr>isvalid := 0\<rparr>
      in if privkey_size > 0
         then (case privkey of
                 None \<Rightarrow> (0, rsa1, w)
               | Some pem \<Rightarrow>
                   (let (biopriv, w1) = BIO_new_mem_buf L pem privkey_size w
                    in if biopriv \<noteq> NULL
                       then (let (rsakey, w2) = RSA_new L w1
                             in if rsakey \<noteq> NULL
                                then (let ((r, rsakey'), w3) =
                                            PEM_read_bio_RSAPrivateKey L biopriv rsakey w2
                                      in if r \<noteq> NULL
                                         then (let (chk, w4) = RSA_check_key L rsakey' w3
                                               in if chk = 1
                                                  then (let (a, w5) =
                                                              EVP_PKEY_assign_RSA L (key rsa1) rsakey' w4
                                                        in (1, rsa1\<lparr>isvalid := 1, isprivate := 1\<rparr>,
                                                            BIO_free L biopriv w5))
                                                  else (0, rsa1,
                                                        BIO_free L biopriv (RSA_free L rsakey' w4)))
                                         else (0, rsa1, BIO_free L biopriv (RSA_free L rsakey' w3)))
                                else (0, rsa1, BIO_free L biopriv w2))
                       else (0, rsa1, w1)))
         else (0, rsa1, w))"

subsection \<open>Signing and verification\<close>

text \<open>
  Both functions take the object through a pointer that is not \<open>const\<close>, so the model
  returns the object as well. \<open>rsaSign\<close> also returns the bytes stored in \<open>sign_buf\<close>.
\<close>

definition rsaSign ::
  "'w extern \<Rightarrow> s_rsa \<Rightarrow> int \<Rightarrow> byte list \<Rightarrow> int \<Rightarrow> 'w \<Rightarrow> (int \<times> byte list) \<times> s_rsa \<times> 'w" where
  "rsaSign L rsa sign_len in_buf in_len w =
     (let sign_maxlen = rsaSignSize L rsa w
      in if sign_len < sign_maxlen then ((0, []), rsa, w)
         else
           (let (r1, w1) = EVP_SignInit_ex L (md rsa) w
            in if r1 = 0 then ((0, []), rsa, w1)
               else
                 (let (r2, w2) = EVP_SignUpdate L (md rsa) in_buf in_len w1
                  in if r2 = 0 then ((0, []), rsa, w2)
                     else
                       (let ((r3, sig, siglen), w3) = EVP_SignFinal L (md rsa) (key rsa) w2
                        in if r3 = 0 then ((0, sig), rsa, w3)
                           else (let len = sint siglen
                                 in if \<not> (len > 0) then ((0, sig), rsa, w3)
                                    else ((len, sig), rsa, w3))))))"

definition rsaVerify ::
  "'w extern \<Rightarrow> s_rsa \<Rightarrow> byte list \<Rightarrow> int \<Rightarrow> byte list \<Rightarrow> int \<Rightarrow> 'w \<Rightarrow> int \<times> s_rsa \<times> 'w" where
  "rsaVerify L rsa sign_buf sign_len in_buf in_len w =
     (let (r1, w1) = EVP_VerifyInit_ex L (md rsa) w
      in if r1 = 0 then (0, rsa, w1)
         else
           (let (r2, w2) = EVP_VerifyUpdate L (md rsa) in_buf in_len w1
            in if r2 = 0 then (0, rsa, w2)
               else
                 (let (r3, w3) = EVP_VerifyFinal L (md rsa) sign_buf sign_len (key rsa) w2
                  in if r3 = 0 then (0, rsa, w3)
                     else (1, rsa, w3))))"

subsection \<open>Operations on a key object\<close>

text \<open>
  The operations a caller can apply to one key object, and their effect on the pair of
  the object and the world. Functions that take the object as \<open>const\<close> leave it as it is.
\<close>

datatype op =
    Create
  | Reset
  | ImportPrivateFromFile string
  | Generate int
  | LoadDER buffer int
  | LoadPublicPEM buffer int
  | LoadPrivatePEM buffer int
  | Sign int "byte list" int
  | Verify "byte list" int "byte list" int
  | GetDER int
  | GetDERSize
  | GetFingerprint int

datatype result = Void | Ret int | RetBuf int "byte list"

fun call :: "'w extern \<Rightarrow> op \<Rightarrow> s_rsa \<times> 'w \<Rightarrow> result \<times> s_rsa \<times> 'w" where
  "call L Create (rsa, w) =
     (case rsaCreate L rsa w of (r, rsa', w') \<Rightarrow> (Ret r, rsa', w'))"
| "call L Reset (rsa, w) = (Void, rsaReset rsa, w)"
| "call L (ImportPrivateFromFile keypath) (rsa, w) =
     (case rsaImportKey L rsa keypath w of (r, rsa', w') \<Rightarrow> (Ret r, rsa', w'))"
| "call L (Generate key_size) (rsa, w) =
     (case rsaGenerate L rsa key_size w of (r, rsa', w') \<Rightarrow> (Ret r, rsa', w'))"
| "call L (LoadDER pubkey n) (rsa, w) =
     (case rsaLoadDER L rsa pubkey n w of (r, rsa', w') \<Rightarrow> (Ret r, rsa', w'))"
| "call L (LoadPublicPEM pubkey n) (rsa, w) =
     (case rsaLoadPEM L rsa pubkey n w of (r, rsa', w') \<Rightarrow> (Ret r, rsa', w'))"
| "call L (LoadPrivatePEM privkey n) (rsa, w) =
     (case rsaLoadPrivatePEM L rsa privkey n w of (r, rsa', w') \<Rightarrow> (Ret r, rsa', w'))"
| "call L (Sign sign_len in_buf in_len) (rsa, w) =
     (case rsaSign L rsa sign_len in_buf in_len w of
        ((r, out), rsa', w') \<Rightarrow> (RetBuf r out, rsa', w'))"
| "call L (Verify sign_buf sign_len in_buf in_len) (rsa, w) =
     (case rsaVerify L rsa sign_buf sign_len in_buf in_len w of
        (r, rsa', w') \<Rightarrow> (Ret r, rsa', w'))"
| "call L (GetDER buf_size) (rsa, w) =
     (case rsaGetDER L buf_size rsa w of (r, out) \<Rightarrow> (RetBuf r out, rsa, w))"
| "call L GetDERSize (rsa, w) = (Ret (rsaGetDERSize L rsa w), rsa, w)"
| "call L (GetFingerprint buf_size) (rsa, w) =
     (case rsaGetFingerprint L buf_size rsa w of
        ((r, out), w') \<Rightarrow> (RetBuf r out, rsa, w'))"

fun run :: "'w extern \<Rightarrow> op list \<Rightarrow> s_rsa \<times> 'w \<Rightarrow> s_rsa \<times> 'w" where
  "run L [] st = st"
| "run L (x # xs) st = run L xs (snd (call L x st))"

text \<open>The invariant of the data model: a private key is a valid key.\<close>

definition flags_consistent :: "s_rsa \<Rightarrow> bool" where
  "flags_consistent rsa \<longleftrightarrow> (rsaIsPrivate rsa \<noteq> 0 \<longrightarrow> rsaIsValid rsa \<noteq> 0)"

text \<open>The four acquisition functions that clear \<open>isvalid\<close> on entry.\<close>

fun clears_on_entry :: "op \<Rightarrow> bool" where
  "clears_on_entry (Generate _) = True"
| "clears_on_entry (LoadDER _ _) = True"
| "clears_on_entry (LoadPublicPEM _ _) = True"
| "clears_on_entry (LoadPrivatePEM _ _) = True"
| "clears_on_entry _ = False"

text \<open>
  A sequence of operations in which none of these four fails on an object whose
  \<open>isprivate\<close> flag is set.
\<close>

fun no_failed_reload :: "'w extern \<Rightarrow> op list \<Rightarrow> s_rsa \<times> 'w \<Rightarrow> bool" where
  "no_failed_reload L [] st = True"
| "no_failed_reload L (x # xs) st =
     ((clears_on_entry x \<and> rsaIsPrivate (fst st) \<noteq> 0 \<longrightarrow> fst (call L x st) \<noteq> Ret 0)
      \<and> no_failed_reload L xs (snd (call L x st)))"

text \<open>
  The encoder reports the same length whether it is asked for the length only or for
  the encoding itself.
\<close>

definition encoder_consistent :: "'w extern \<Rightarrow> s_rsa \<Rightarrow> 'w \<Rightarrow> bool" where
  "encoder_consistent L rsa w \<longleftrightarrow>
     fst (i2d_PublicKey L (key rsa) WriteOut w) = fst (i2d_PublicKey L (key rsa) SizeOnly w)"

subsection \<open>A small simulated library\<close>

text \<open>
  The theorems below hold for every library. To run the functions on concrete inputs, a
  simulated library is enough: it allocates fresh addresses, remembers which key material
  every key object holds (with the length of the modulus in bytes), keeps the contents of
  memory BIOs and the data fed to each digest context. Its PEM text is the three bytes
  dash, \<open>P\<close> or \<open>S\<close> (public or secret), and the modulus length divided by 8; its DER
  encoding of a public key is 14 bytes longer than the modulus and starts with 0x30.
  A signature is as long as the modulus; its bytes are the reversed message and a hash is
  the first 32 bytes of its input: stand-ins, no statement below is about their strength.
\<close>

datatype keymat = NoKey | PubKey nat | PrivKey nat

record sim =
  brk :: nat
  bios :: "ptr \<Rightarrow> byte list"
  keys :: "ptr \<Rightarrow> keymat"
  digests :: "ptr \<Rightarrow> byte list"

definition sim0 :: sim where
  "sim0 = \<lparr>brk = 0, bios = (\<lambda>_. []), keys = (\<lambda>_. NoKey), digests = (\<lambda>_. [])\<rparr>"

definition sim_alloc :: "sim \<Rightarrow> ptr \<times> sim" where
  "sim_alloc w = (Suc (brk w), w\<lparr>brk := Suc (brk w)\<rparr>)"

fun sim_parse_pem :: "byte list \<Rightarrow> keymat" where
  "sim_parse_pem (a # b # n # _) =
     (if a = 0x2D \<and> b = 0x53 then PrivKey (8 * unat n)
      else if a = 0x2D \<and> b = 0x50 then PubKey (8 * unat n)
      else NoKey)"
| "sim_parse_pem _ = NoKey"

fun modulus_len :: "keymat \<Rightarrow> nat" where
  "modulus_len NoKey = 0"
| "modulus_len (PubKey n) = n"
| "modulus_len (PrivKey n) = n"

fun is_private :: "keymat \<Rightarrow> bool" where
  "is_private (PrivKey _) = True"
| "is_private _ = False"

fun sim_file :: "string \<Rightarrow> byte list option" where
  "sim_file path =
     (if path = ''private.pem'' then Some [0x2D, 0x53, 32]
      else if path = ''public.pem'' then Some [0x2D, 0x50, 32]
      else None)"

definition sim_read_key :: "ptr \<Rightarrow> ptr \<Rightarrow> bool \<Rightarrow> sim \<Rightarrow> (ptr \<times> ptr) \<times> sim" where
  "sim_read_key bio x want_private w =
     (let k = sim_parse_pem (bios w bio)
      in if k \<noteq> NoKey \<and> is_private k = want_private \<and> x \<noteq> NULL
         then ((x, x), w\<lparr>keys := (keys w)(x := k)\<rparr>)
         else ((NULL, x), w))"

definition sim_i2d :: "ptr \<Rightarrow> i2d_out \<Rightarrow> sim \<Rightarrow> int \<times> byte list" where
  "sim_i2d k mode w =
     (case keys w k of
        NoKey \<Rightarrow> (- 1, [])
      | _ \<Rightarrow> (int (modulus_len (keys w k)) + 14,
              if mode = WriteOut then 0x30 # replicate (modulus_len (keys w k) + 13) 0 else []))"

definition sim_d2i :: "int \<Rightarrow> ptr \<Rightarrow> byte list \<Rightarrow> int \<Rightarrow> sim \<Rightarrow> ptr \<times> sim" where
  "sim_d2i type k bs n w =
     (if type = EVP_PKEY_RSA \<and> k \<noteq> NULL \<and> 14 < n \<and> take 1 bs = [0x30]
      then (k, w\<lparr>keys := (keys w)(k := PubKey (nat n - 14))\<rparr>)
      else (NULL, w))"

definition sim_new_file :: "string \<Rightarrow> string \<Rightarrow> sim \<Rightarrow> ptr \<times> sim" where
  "sim_new_file path mode w =
     (case sim_file path of
        None \<Rightarrow> (NULL, w)
      | Some bs \<Rightarrow> (Suc (brk w), w\<lparr>brk := Suc (brk w), bios := (bios w)(Suc (brk w) := bs)\<rparr>))"

definition sim_new_mem_buf :: "byte list \<Rightarrow> int \<Rightarrow> sim \<Rightarrow> ptr \<times> sim" where
  "sim_new_mem_buf bs n w =
     (Suc (brk w), w\<lparr>brk := Suc (brk w), bios := (bios w)(Suc (brk w) := bs)\<rparr>)"

definition sim_assign :: "ptr \<Rightarrow> ptr \<Rightarrow> sim \<Rightarrow> int \<times> sim" where
  "sim_assign k r w =
     (if k \<noteq> NULL \<and> r \<noteq> NULL then (1, w\<lparr>keys := (keys w)(k := keys w r)\<rparr>) else (0, w))"

definition sim_generate :: "ptr \<Rightarrow> int \<Rightarrow> ptr \<Rightarrow> sim \<Rightarrow> int \<times> sim" where
  "sim_generate r bits e w =
     (if 512 \<le> bits \<and> r \<noteq> NULL
      then (1, w\<lparr>keys := (keys w)(r := PrivKey (nat (bits div 8)))\<rparr>)
      else (0, w))"

definition sim_update :: "ptr \<Rightarrow> byte list \<Rightarrow> int \<Rightarrow> sim \<Rightarrow> int \<times> sim" where
  "sim_update m bs n w = (1, w\<lparr>digests := (digests w)(m := digests w m @ bs)\<rparr>)"

definition sim_init :: "ptr \<Rightarrow> sim \<Rightarrow> int \<times> sim" where
  "sim_init m w = (1, w\<lparr>digests := (digests w)(m := [])\<rparr>)"

definition sim_sign_final :: "ptr \<Rightarrow> ptr \<Rightarrow> sim \<Rightarrow> (int \<times> byte list \<times> 32 word) \<times> sim" where
  "sim_sign_final m k w =
     (if is_private (keys w k)
      then ((1, rev (digests w m), of_nat (modulus_len (keys w k))), w)
      else ((0, [], 0), w))"

definition sim_verify_final :: "ptr \<Rightarrow> byte list \<Rightarrow> int \<Rightarrow> ptr \<Rightarrow> sim \<Rightarrow> int \<times> sim" where
  "sim_verify_final m sg n k w =
     (if keys w k \<noteq> NoKey \<and> n = int (modulus_len (keys w k)) \<and> sg = rev (digests w m)
      then (1, w) else (0, w))"

definition sim_lib :: "sim extern" where
  "sim_lib = \<lparr>
     RSA_MINSIZE = 48,
     RSA_MAXSIZE = 416,
     cryptoCalculateSHA256 =
       (\<lambda>buf_size bs n w. (if 32 \<le> buf_size then (32, take 32 bs) else (0, []), w)),
     i2d_PublicKey = sim_i2d,
     d2i_PublicKey = sim_d2i,
     OpenSSL_add_all_algorithms = (\<lambda>w. w),
     EVP_PKEY_new = sim_alloc,
     EVP_PKEY_free = (\<lambda>k w. w\<lparr>keys := (keys w)(k := NoKey)\<rparr>),
     EVP_PKEY_get1_RSA = (\<lambda>k w. (if keys w k = NoKey then NULL else k, w)),
     EVP_PKEY_assign_RSA = sim_assign,
     EVP_PKEY_size = (\<lambda>k w. int (modulus_len (keys w k))),
     BIO_new_file = sim_new_file,
     BIO_new_mem_buf = sim_new_mem_buf,
     BIO_free = (\<lambda>b w. w),
     PEM_read_bio_PrivateKey = (\<lambda>b x. sim_read_key b x True),
     PEM_read_bio_RSA_PUBKEY = (\<lambda>b x. sim_read_key b x False),
     PEM_read_bio_RSAPrivateKey = (\<lambda>b x. sim_read_key b x True),
     RSA_new = sim_alloc,
     RSA_free = (\<lambda>r w. w\<lparr>keys := (keys w)(r := NoKey)\<rparr>),
     RSA_check_key = (\<lambda>r w. (if r \<noteq> NULL \<and> is_private (keys w r) then 1 else 0, w)),
     RSA_generate_key_ex = sim_generate,
     BN_new = sim_alloc,
     BN_free = (\<lambda>b w. w),
     BN_zero = (\<lambda>b w. w),
     BN_set_word = (\<lambda>b v w. (1, w)),
     EVP_MD_CTX_create = sim_alloc,
     EVP_SignInit_ex = sim_init,
     EVP_SignUpdate = sim_update,
     EVP_SignFinal = sim_sign_final,
     EVP_VerifyInit_ex = sim_init,
     EVP_VerifyUpdate = sim_update,
     EVP_VerifyFinal = sim_verify_final\<rparr>"

text \<open>An object before \<open>rsaCreate\<close>: whatever the memory held.\<close>

definition uninitialised :: s_rsa where
  "uninitialised = \<lparr>isvalid = 7, isprivate = 9, key = 0, md = 0, bn = 0\<rparr>"

text \<open>Some inputs: a private and a public key in the simulated PEM text, a message.\<close>

definition pem_private :: "byte list" where
  "pem_private = [0x2D, 0x53, 32]"

definition pem_public :: "byte list" where
  "pem_public = [0x2D, 0x50, 32]"

definition hello :: "byte list" where
  "hello = [0x68, 0x65, 0x6C, 0x6C, 0x6F]"

definition der_prefix :: "byte list" where
  "der_prefix = [0x30, 0x82, 0x01, 0x0A, 0x02, 0x82, 0x01, 0x01, 0x00, 0xC3]"

text \<open>Three objects of the simulated library: created, holding a private key of 2048
  bits loaded from PEM text, and holding a generated key of 4096 bits.\<close>

definition created_object :: "s_rsa \<times> sim" where
  "created_object = run sim_lib [Create] (uninitialised, sim0)"

definition private_object :: "s_rsa \<times> sim" where
  "private_object =
     run sim_lib [Create, LoadPrivatePEM (Some pem_private) 3] (uninitialised, sim0)"

definition large_key_object :: "s_rsa \<times> sim" where
  "large_key_object = run sim_lib [Create, Generate 4096] (uninitialised, sim0)"

subsection \<open>The three primitive calls of \<open>rsaSign\<close>\<close>

text \<open>
  What the digest primitives return when \<open>rsaSign\<close> calls them one after the other:
  each is applied to the world its predecessor left.
\<close>

definition sign_init_result :: "'w extern \<Rightarrow> s_rsa \<Rightarrow> 'w \<Rightarrow> int \<times> 'w" where
  "sign_init_result L rsa w = EVP_SignInit_ex L (md rsa) w"

definition sign_update_result ::
  "'w extern \<Rightarrow> s_rsa \<Rightarrow> byte list \<Rightarrow> int \<Rightarrow> 'w \<Rightarrow> int \<times> 'w" where
  "sign_update_result L rsa in_buf in_len w =
     EVP_SignUpdate L (md rsa) in_buf in_len (snd (sign_init_result L rsa w))"

definition sign_final_result ::
  "'w extern \<Rightarrow> s_rsa \<Rightarrow> byte list \<Rightarrow> int \<Rightarrow> 'w \<Rightarrow> (int \<times> byte list \<times> 32 word) \<times> 'w" where
  "sign_final_result L rsa in_buf in_len w =
     EVP_SignFinal L (md rsa) (key rsa) (snd (sign_update_result L rsa in_buf in_len w))"

text \<open>The length \<open>EVP_SignFinal\<close> stored, read as the \<open>int\<close> variable \<open>len\<close>.\<close>

definition sign_final_len :: "'w extern \<Rightarrow> s_rsa \<Rightarrow> byte list \<Rightarrow> int \<Rightarrow> 'w \<Rightarrow> int" where
  "sign_final_len L rsa in_buf in_len w =
     sint (snd (snd (fst (sign_final_result L rsa in_buf in_len w))))"

text \<open>
  The contract of \<open>EVP_SignFinal\<close> for a key that holds private material: when it
  succeeds, the length it stored is strictly positive.
\<close>

definition finalize_stores_positive ::
  "'w extern \<Rightarrow> s_rsa \<Rightarrow> byte list \<Rightarrow> int \<Rightarrow> 'w \<Rightarrow> bool" where
  "finalize_stores_positive L rsa in_buf in_len w \<longleftrightarrow>
     (fst (fst (sign_final_result L rsa in_buf in_len w)) \<noteq> 0 \<longrightarrow>
        0 < sign_final_len L rsa in_buf in_len w)"

subsection \<open>Evaluating the simulated library\<close>

lemma sim_lib_fields [simp]:
  "RSA_MINSIZE sim_lib = 48"
  "RSA_MAXSIZE sim_lib = 416"
  "cryptoCalculateSHA256 sim_lib =
     (\<lambda>buf_size bs n w. (if 32 \<le> buf_size then (32, take 32 bs) else (0, []), w))"
  "i2d_PublicKey sim_lib = sim_i2d"
  "d2i_PublicKey sim_lib = sim_d2i"
  "OpenSSL_add_all_algorithms sim_lib = (\<lambda>w. w)"
  "EVP_PKEY_new sim_lib = sim_alloc"
  "EVP_PKEY_free sim_lib = (\<lambda>k w. w\<lparr>keys := (keys w)(k := NoKey)\<rparr>)"
  "EVP_PKEY_get1_RSA sim_lib = (\<lambda>k w. (if keys w k = NoKey then NULL else k, w))"
  "EVP_PKEY_assign_RSA sim_lib = sim_assign"
  "EVP_PKEY_size sim_lib = (\<lambda>k w. int (modulus_len (keys w k)))"
  "BIO_new_file sim_lib = sim_new_file"
  "BIO_new_mem_buf sim_lib = sim_new_mem_buf"
  "BIO_free sim_lib = (\<lambda>b w. w)"
  "PEM_read_bio_PrivateKey sim_lib = (\<lambda>b x. sim_read_key b x True)"
  "PEM_read_bio_RSA_PUBKEY sim_lib = (\<lambda>b x. sim_read_key b x False)"
  "PEM_read_bio_RSAPrivateKey sim_lib = (\<lambda>b x. sim_read_key b x True)"
  "RSA_new sim_lib = sim_alloc"
  "RSA_free sim_lib = (\<lambda>r w. w\<lparr>keys := (keys w)(r := NoKey)\<rparr>)"
  "RSA_check_key sim_lib = (\<lambda>r w. (if r \<noteq> NULL \<and> is_private (keys w r) then 1 else 0, w))"
  "RSA_generate_key_ex sim_lib = sim_generate"
  "BN_new sim_lib = sim_alloc"
  "BN_free sim_lib = (\<lambda>b w. w)"
  "BN_zero sim_lib = (\<lambda>b w. w)"
  "BN_set_word sim_lib = (\<lambda>b v w. (1, w))"
  "EVP_MD_CTX_create sim_lib = sim_alloc"
  "EVP_SignInit_ex sim_lib = sim_init"
  "EVP_SignUpdate sim_lib = sim_update"
  "EVP_SignFinal sim_lib = sim_sign_final"
  "EVP_VerifyInit_ex sim_lib = sim_init"
  "EVP_VerifyUpdate sim_lib = sim_update"
  "EVP_VerifyFinal sim_lib = sim_verify_final"
  by (simp_all add: sim_lib_def)

lemmas sim_defs = sim0_def sim_alloc_def sim_read_key_def sim_i2d_def sim_d2i_def sim_new_file_def
  sim_new_mem_buf_def sim_assign_def sim_generate_def sim_update_def sim_init_def
  sim_sign_final_def sim_verify_final_def NULL_def uninitialised_def pem_private_def
  pem_public_def hello_def Let_def


lemmas rsa_defs = rsaCreate_def rsaReset_def rsaLoadPrivatePEM_def rsaLoadDER_def rsaLoadPEM_def
  rsaGenerate_def rsaImportKey_def rsaSign_def rsaVerify_def rsaGetDER_def rsaGetDERSize_def
  rsaGetFingerprint_def rsaSignSize_def rsaIsValid_def rsaIsPrivate_def


lemmas obj_defs = created_object_def private_object_def large_key_object_def der_prefix_def

subsection \<open>What each function does to the flags\<close>

lemma rsaGenerate_result:
  "rsaGenerate L rsa n w = (r, rsa', w') \<Longrightarrow>
     (r = 0 \<and> rsa' = rsa\<lparr>isvalid := 0\<rparr>) \<or> (r = 1 \<and> rsa' = rsa\<lparr>isvalid := 1, isprivate := 1\<rparr>)"
  by (auto simp: rsaGenerate_def Let_def split: prod.splits if_splits)

lemma rsaLoadDER_result:
  "rsaLoadDER L rsa p n w = (r, rsa', w') \<Longrightarrow>
     (r = 0 \<and> rsa' = rsa\<lparr>isvalid := 0\<rparr>) \<or> (r = 1 \<and> rsa' = rsa\<lparr>isvalid := 1, isprivate := 0\<rparr>)"
  by (auto simp: rsaLoadDER_def Let_def split: prod.splits if_splits option.splits)

lemma rsaLoadPEM_result:
  "rsaLoadPEM L rsa p n w = (r, rsa', w') \<Longrightarrow>
     (r = 0 \<and> rsa' = rsa\<lparr>isvalid := 0\<rparr>) \<or> (r = 1 \<and> rsa' = rsa\<lparr>isvalid := 1, isprivate := 0\<rparr>)"
  by (auto simp: rsaLoadPEM_def Let_def split: prod.splits if_splits option.splits)

lemma rsaLoadPrivatePEM_result:
  "rsaLoadPrivatePEM L rsa p n w = (r, rsa', w') \<Longrightarrow>
     (r = 0 \<and> rsa' = rsa\<lparr>isvalid := 0\<rparr>) \<or> (r = 1 \<and> rsa' = rsa\<lparr>isvalid := 1, isprivate := 1\<rparr>)"
  by (auto simp: rsaLoadPrivatePEM_def Let_def split: prod.splits if_splits option.splits)

lemma rsaImportKey_flags:
  "rsaImportKey L rsa path w = (r, rsa', w') \<Longrightarrow>
     (r = 0 \<and> isvalid rsa' = isvalid rsa \<and> isprivate rsa' = isprivate rsa)
     \<or> (r = 1 \<and> isvalid rsa' = 1 \<and> isprivate rsa' = 1)"
  by (auto simp: rsaImportKey_def Let_def split: prod.splits if_splits)

lemma rsaCreate_flags:
  "rsaCreate L rsa w = (r, rsa', w') \<Longrightarrow>
     (r = 0 \<and> isvalid rsa' = isvalid rsa \<and> isprivate rsa' = isprivate rsa)
     \<or> (r = 1 \<and> isvalid rsa' = 0 \<and> isprivate rsa' = 0)"
  by (auto simp: rsaCreate_def rsaReset_def Let_def split: prod.splits if_splits)

lemma rsaSign_object: "fst (snd (rsaSign L rsa c m n w)) = rsa"
  by (simp add: rsaSign_def Let_def split: prod.splits)

lemma rsaVerify_object: "fst (snd (rsaVerify L rsa s c m n w)) = rsa"
  by (simp add: rsaVerify_def Let_def split: prod.splits)

lemma call_keeps_flags_consistent:
  assumes "flags_consistent (fst st)"
    and "clears_on_entry x \<and> rsaIsPrivate (fst st) \<noteq> 0 \<longrightarrow> fst (call L x st) \<noteq> Ret 0"
  shows "flags_consistent (fst (snd (call L x st)))"
proof -
  obtain rsa w where st: "st = (rsa, w)" by (cases st)
  show ?thesis
  proof (cases x)
    case Create
    then show ?thesis using assms st
      by (auto simp: flags_consistent_def rsaIsValid_def rsaIsPrivate_def
               split: prod.splits dest!: rsaCreate_flags)
  next
    case Reset
    then show ?thesis using st
      by (simp add: flags_consistent_def rsaIsValid_def rsaIsPrivate_def rsaReset_def)
  next
    case (ImportPrivateFromFile path)
    then show ?thesis using assms st
      by (auto simp: flags_consistent_def rsaIsValid_def rsaIsPrivate_def
               split: prod.splits dest!: rsaImportKey_flags)
  next
    case (Generate n)
    then show ?thesis using assms st
      by (auto simp: flags_consistent_def rsaIsValid_def rsaIsPrivate_def
               split: prod.splits dest!: rsaGenerate_result)
  next
    case (LoadDER p n)
    then show ?thesis using assms st
      by (auto simp: flags_consistent_def rsaIsValid_def rsaIsPrivate_def
               split: prod.splits dest!: rsaLoadDER_result)
  next
    case (LoadPublicPEM p n)
    then show ?thesis using assms st
      by (auto simp: flags_consistent_def rsaIsValid_def rsaIsPrivate_def
               split: prod.splits dest!: rsaLoadPEM_result)
  next
    case (LoadPrivatePEM p n)
    then show ?thesis using assms st
      by (auto simp: flags_consistent_def rsaIsValid_def rsaIsPrivate_def
               split: prod.splits dest!: rsaLoadPrivatePEM_result)
  next
    case (Sign c m n)
    then show ?thesis using assms(1) st rsaSign_object [of L rsa c m n w]
      by (auto split: prod.splits)
  next
    case (Verify s c m n)
    then show ?thesis using assms(1) st rsaVerify_object [of L rsa s c m n w]
      by (auto split: prod.splits)
  next
    case (GetDER c)
    then show ?thesis using assms(1) st by (auto split: prod.splits)
  next
    case GetDERSize
    then show ?thesis using assms(1) st by simp
  next
    case (GetFingerprint c)
    then show ?thesis using assms(1) st by (auto split: prod.splits)
  qed
qed

lemma run_keeps_flags_consistent:
  "flags_consistent (fst st) \<Longrightarrow> no_failed_reload L xs st \<Longrightarrow>
     flags_consistent (fst (run L xs st))"
proof (induction xs arbitrary: st)
  case Nil
  then show ?case by simp
next
  case (Cons x xs)
  have "flags_consistent (fst (snd (call L x st)))"
    using Cons.prems by (intro call_keeps_flags_consistent) auto
  moreover have "no_failed_reload L xs (snd (call L x st))"
    using Cons.prems by simp
  ultimately show ?case using Cons.IH by simp
qed

lemma create_establishes_flags_consistent:
  assumes "fst (call L Create st0) \<noteq> Ret 0"
  shows "flags_consistent (fst (snd (call L Create st0)))"
proof -
  obtain rsa w where st: "st0 = (rsa, w)" by (cases st0)
  show ?thesis using assms st
    by (auto simp: flags_consistent_def rsaIsValid_def rsaIsPrivate_def
             split: prod.splits dest!: rsaCreate_flags)
qed

text \<open>
  Claim C1, as amended. The claim says that \<open>isprivate\<close> implies \<open>isvalid\<close> in every
  state reachable by Create, Reset, the five acquisition operations, Sign, Verify, GetDER,
  GetDERSize and GetFingerprint. \<open>rsaGenerate\<close>, \<open>rsaLoadDER\<close>, \<open>rsaLoadPEM\<close> and
  \<open>rsaLoadPrivatePEM\<close> clear \<open>isvalid\<close> on entry and leave \<open>isprivate\<close> as it is, so
  a failure of one of them on an object holding a private key breaks the implication.
  What holds: after a successful Create, the implication holds in every state reached by
  a sequence of these operations in which none of the four fails on an object whose
  \<open>isprivate\<close> flag is set.
\<close>

theorem flags_consistent_reachable:
  assumes "fst (call L Create st0) \<noteq> Ret 0"
    and "no_failed_reload L xs (snd (call L Create st0))"
  shows "flags_consistent (fst (run L xs (snd (call L Create st0))))"
  using assms create_establishes_flags_consistent run_keeps_flags_consistent by blast

theorem flags_consistent_reachable_witness:
  "fst (call sim_lib Create (uninitialised, sim0)) \<noteq> Ret 0
   \<and> no_failed_reload sim_lib
        [LoadPrivatePEM (Some pem_private) 3, Sign 256 hello 5,
         LoadPublicPEM (Some pem_public) 3, LoadDER None 0, Reset, Generate 0]
        (snd (call sim_lib Create (uninitialised, sim0)))
   \<and> flags_consistent (fst (run sim_lib
        [LoadPrivatePEM (Some pem_private) 3, Sign 256 hello 5,
         LoadPublicPEM (Some pem_public) 3, LoadDER None 0, Reset, Generate 0]
        (snd (call sim_lib Create (uninitialised, sim0)))))"
proof -
  have c: "fst (call sim_lib Create (uninitialised, sim0)) \<noteq> Ret 0"
    by (simp add: rsa_defs sim_defs)
  have n: "no_failed_reload sim_lib
        [LoadPrivatePEM (Some pem_private) 3, Sign 256 hello 5,
         LoadPublicPEM (Some pem_public) 3, LoadDER None 0, Reset, Generate 0]
        (snd (call sim_lib Create (uninitialised, sim0)))"
    by (simp add: rsa_defs sim_defs)
  show ?thesis using c n flags_consistent_reachable [OF c n] by blast
qed

text \<open>
  Claim C1 as stated fails: create an object, load a private key from PEM text, then call
  \<open>rsaLoadDER\<close> with a null pointer. The load fails, \<open>isvalid\<close> is 0 and
  \<open>isprivate\<close> is still 1.
\<close>

theorem flags_inconsistent_after_failed_reload:
  "\<not> flags_consistent (fst (run sim_lib
        [Create, LoadPrivatePEM (Some pem_private) 3, LoadDER None 0] (uninitialised, sim0)))"
  by (simp add: rsa_defs sim_defs flags_consistent_def)

text \<open>
  Claim C2, as amended. The claim says that a failed acquisition leaves \<open>isvalid\<close> and
  \<open>isprivate\<close> both false whatever the state before. \<open>rsaGenerate\<close>, \<open>rsaLoadDER\<close>,
  \<open>rsaLoadPEM\<close> and \<open>rsaLoadPrivatePEM\<close> assign \<open>isvalid\<close> on entry and nothing else
  before they succeed. What holds for these four: whenever one of them returns failure,
  \<open>isvalid\<close> is false afterwards, whatever the state before, and \<open>isprivate\<close> has the
  value it had before the call.
\<close>

theorem failed_reload_flags:
  assumes "clears_on_entry x" and "call L x (rsa, w) = (Ret 0, rsa', w')"
  shows "rsaIsValid rsa' = 0 \<and> rsaIsPrivate rsa' = rsaIsPrivate rsa"
  using assms
  by (cases x)
     (auto simp: rsaIsValid_def rsaIsPrivate_def split: prod.splits
           dest!: rsaGenerate_result rsaLoadDER_result rsaLoadPEM_result rsaLoadPrivatePEM_result)

theorem failed_reload_flags_witness:
  "clears_on_entry (Generate 0)
   \<and> call sim_lib (Generate 0) private_object
       = (Ret 0, (fst private_object)\<lparr>isvalid := 0\<rparr>, snd private_object)
   \<and> rsaIsValid ((fst private_object)\<lparr>isvalid := 0\<rparr>) = 0
   \<and> rsaIsPrivate ((fst private_object)\<lparr>isvalid := 0\<rparr>) = rsaIsPrivate (fst private_object)"
proof -
  have "call sim_lib (Generate 0) (r, v) = (Ret 0, r\<lparr>isvalid := 0\<rparr>, v)" for r v
    by (simp add: rsaGenerate_def Let_def)
  from this [of "fst private_object" "snd private_object"]
  have c: "call sim_lib (Generate 0) private_object
       = (Ret 0, (fst private_object)\<lparr>isvalid := 0\<rparr>, snd private_object)"
    by simp
  show ?thesis
    using c failed_reload_flags
      [of "Generate 0" sim_lib "fst private_object" "snd private_object"
          "(fst private_object)\<lparr>isvalid := 0\<rparr>" "snd private_object"]
    by simp
qed

text \<open>
  Claim C2 as stated fails: \<open>rsaLoadDER\<close> with a null pointer on an object that holds a
  private key returns failure and leaves \<open>isprivate\<close> set.
\<close>

theorem failed_LoadDER_keeps_isprivate:
  "fst (call sim_lib (LoadDER None 0) private_object) = Ret 0
   \<and> \<not> (rsaIsValid (fst (snd (call sim_lib (LoadDER None 0) private_object))) = 0
        \<and> rsaIsPrivate (fst (snd (call sim_lib (LoadDER None 0) private_object))) = 0)"
  by (simp add: obj_defs rsa_defs sim_defs)

text \<open>
  Claim C3. For a key whose encoder reports one length, asked for the length or for the
  encoding, \<open>rsaGetDER\<close> returns the encoded length when that length is strictly greater
  than \<open>RSA_MINSIZE\<close> and strictly less than the capacity, and 0 in every other case. So
  it returns 0 whenever the capacity is less than or equal to the encoded size; at a
  capacity equal to the size it fails; at a capacity one above the size it succeeds when
  the size exceeds \<open>RSA_MINSIZE\<close>. The flag \<open>isvalid\<close> is not consulted.
\<close>

theorem rsaGetDER_length:
  assumes "encoder_consistent L rsa w"
  shows "fst (rsaGetDER L capacity rsa w) =
           (if RSA_MINSIZE L < rsaGetDERSize L rsa w \<and> rsaGetDERSize L rsa w < capacity
            then rsaGetDERSize L rsa w else 0)
         \<and> (capacity \<le> rsaGetDERSize L rsa w \<longrightarrow> fst (rsaGetDER L capacity rsa w) = 0)
         \<and> fst (rsaGetDER L (rsaGetDERSize L rsa w) rsa w) = 0
         \<and> (RSA_MINSIZE L < rsaGetDERSize L rsa w \<longrightarrow>
              fst (rsaGetDER L (rsaGetDERSize L rsa w + 1) rsa w) = rsaGetDERSize L rsa w)"
  using assms
  by (auto simp: encoder_consistent_def rsaGetDER_def rsaGetDERSize_def Let_def
           split: prod.splits if_splits)


theorem rsaGetDER_length_witness:
  "encoder_consistent sim_lib (fst private_object) (snd private_object)
   \<and> rsaGetDERSize sim_lib (fst private_object) (snd private_object) = 270
   \<and> fst (rsaGetDER sim_lib 270 (fst private_object) (snd private_object)) = 0
   \<and> fst (rsaGetDER sim_lib 271 (fst private_object) (snd private_object)) = 270"
proof -
  have e: "encoder_consistent sim_lib (fst private_object) (snd private_object)"
    by (simp add: encoder_consistent_def obj_defs rsa_defs sim_defs)
  have s: "rsaGetDERSize sim_lib (fst private_object) (snd private_object) = 270"
    by (simp add: obj_defs rsa_defs sim_defs)
  show ?thesis
    using e s rsaGetDER_length [OF e, of 270] rsaGetDER_length [OF e, of 271] by simp
qed

text \<open>
  Claim C4. For a key whose finalize primitive stores a strictly positive length whenever
  it succeeds, as it does for a key holding private material, \<open>rsaSign\<close> returns 0
  whenever the capacity is strictly smaller than \<open>rsaSignSize\<close>, returns 0 whenever the
  digest init, update or finalize call fails, and otherwise returns the length finalize
  stored, which is strictly positive. The flag \<open>isprivate\<close> is not consulted.
\<close>

theorem rsaSign_result:
  assumes "finalize_stores_positive L rsa in_buf in_len w"
  shows "(sign_len < rsaSignSize L rsa w \<longrightarrow>
            fst (fst (rsaSign L rsa sign_len in_buf in_len w)) = 0)
         \<and> (fst (sign_init_result L rsa w) = 0 \<longrightarrow>
              fst (fst (rsaSign L rsa sign_len in_buf in_len w)) = 0)
         \<and> (fst (sign_update_result L rsa in_buf in_len w) = 0 \<longrightarrow>
              fst (fst (rsaSign L rsa sign_len in_buf in_len w)) = 0)
         \<and> (fst (fst (sign_final_result L rsa in_buf in_len w)) = 0 \<longrightarrow>
              fst (fst (rsaSign L rsa sign_len in_buf in_len w)) = 0)
         \<and> (\<not> sign_len < rsaSignSize L rsa w
              \<and> fst (sign_init_result L rsa w) \<noteq> 0
              \<and> fst (sign_update_result L rsa in_buf in_len w) \<noteq> 0
              \<and> fst (fst (sign_final_result L rsa in_buf in_len w)) \<noteq> 0 \<longrightarrow>
              fst (fst (rsaSign L rsa sign_len in_buf in_len w))
                = sign_final_len L rsa in_buf in_len w
              \<and> 0 < fst (fst (rsaSign L rsa sign_len in_buf in_len w)))"
proof -
  have r: "fst (fst (rsaSign L rsa sign_len in_buf in_len w)) =
             (if sign_len < rsaSignSize L rsa w
                 \<or> fst (sign_init_result L rsa w) = 0
                 \<or> fst (sign_update_result L rsa in_buf in_len w) = 0
                 \<or> fst (fst (sign_final_result L rsa in_buf in_len w)) = 0
                 \<or> \<not> 0 < sign_final_len L rsa in_buf in_len w
              then 0 else sign_final_len L rsa in_buf in_len w)"
    by (simp add: rsaSign_def sign_init_result_def sign_update_result_def
          sign_final_result_def sign_final_len_def Let_def split: prod.splits)
  show ?thesis
    using assms unfolding finalize_stores_positive_def r by auto
qed

theorem rsaSign_result_witness:
  "finalize_stores_positive sim_lib (fst private_object) hello 5 (snd private_object)
   \<and> rsaSignSize sim_lib (fst private_object) (snd private_object) = 256
   \<and> fst (fst (rsaSign sim_lib (fst private_object) 255 hello 5 (snd private_object))) = 0
   \<and> fst (sign_init_result sim_lib (fst private_object) (snd private_object)) \<noteq> 0
   \<and> fst (sign_update_result sim_lib (fst private_object) hello 5 (snd private_object)) \<noteq> 0
   \<and> fst (fst (sign_final_result sim_lib (fst private_object) hello 5 (snd private_object))) \<noteq> 0
   \<and> sign_final_len sim_lib (fst private_object) hello 5 (snd private_object) = 256
   \<and> fst (fst (rsaSign sim_lib (fst private_object) 256 hello 5 (snd private_object))) = 256"
proof -
  have m: "rsaSignSize sim_lib (fst private_object) (snd private_object) = 256"
    by (simp add: obj_defs rsa_defs sim_defs)
  have i: "fst (sign_init_result sim_lib (fst private_object) (snd private_object)) \<noteq> 0"
    by (simp add: sign_init_result_def sim_defs)
  have u: "fst (sign_update_result sim_lib (fst private_object) hello 5 (snd private_object)) \<noteq> 0"
    by (simp add: sign_update_result_def sim_defs)
  have f: "fst (fst (sign_final_result sim_lib (fst private_object) hello 5 (snd private_object))) \<noteq> 0"
    by (simp add: sign_final_result_def sign_update_result_def sign_init_result_def
          obj_defs rsa_defs sim_defs)
  have l: "sign_final_len sim_lib (fst private_object) hello 5 (snd private_object) = 256"
    by (simp add: sign_final_len_def sign_final_result_def sign_update_result_def
          sign_init_result_def obj_defs rsa_defs sim_defs)
  have c: "finalize_stores_positive sim_lib (fst private_object) hello 5 (snd private_object)"
    using l by (simp add: finalize_stores_positive_def)
  show ?thesis
    using c m i u f l rsaSign_result [OF c, of 255] rsaSign_result [OF c, of 256]
    by simp
qed

text \<open>
  Claim C5, as amended. The claim says that for a declared length less than or equal to
  \<open>RSA_MINSIZE\<close> \<open>rsaLoadDER\<close> returns failure without decoding and leaves the object
  invalid, that is, with both flags false. \<open>rsaLoadDER\<close> clears \<open>isvalid\<close> on entry
  and assigns nothing else on this path. What holds: it returns failure and leaves the
  world as it was (the decoder is not called, whatever the bytes are), \<open>isvalid\<close> is
  false afterwards and \<open>isprivate\<close> has the value it had before the call.
\<close>

theorem rsaLoadDER_short_input:
  assumes "pubkey_size \<le> RSA_MINSIZE L"
  shows "rsaLoadDER L rsa pubkey pubkey_size w = (0, rsa\<lparr>isvalid := 0\<rparr>, w)
         \<and> rsaIsValid (fst (snd (rsaLoadDER L rsa pubkey pubkey_size w))) = 0
         \<and> rsaIsPrivate (fst (snd (rsaLoadDER L rsa pubkey pubkey_size w))) = rsaIsPrivate rsa"
  using assms by (simp add: rsaLoadDER_def rsaIsValid_def rsaIsPrivate_def Let_def)

theorem rsaLoadDER_short_input_witness:
  "10 \<le> RSA_MINSIZE sim_lib
   \<and> rsaLoadDER sim_lib (fst private_object) (Some der_prefix) 10 (snd private_object)
       = (0, (fst private_object)\<lparr>isvalid := 0\<rparr>, snd private_object)
   \<and> rsaIsValid (fst (snd (rsaLoadDER sim_lib (fst private_object) (Some der_prefix) 10
                              (snd private_object)))) = 0
   \<and> rsaIsPrivate (fst (snd (rsaLoadDER sim_lib (fst private_object) (Some der_prefix) 10
                                (snd private_object)))) = rsaIsPrivate (fst private_object)"
proof -
  have h: "10 \<le> RSA_MINSIZE sim_lib" by simp
  show ?thesis
    using h rsaLoadDER_short_input
      [OF h, of "fst private_object" "Some der_prefix" "snd private_object"]
    by blast
qed

text \<open>
  Claim C5 as stated fails: on an object that holds a private key, \<open>rsaLoadDER\<close> with
  ten bytes of a DER prefix and declared length 10 returns failure and leaves
  \<open>isprivate\<close> set, so the object is not in the invalid state.
\<close>

theorem short_LoadDER_keeps_isprivate:
  "10 \<le> RSA_MINSIZE sim_lib
   \<and> fst (rsaLoadDER sim_lib (fst private_object) (Some der_prefix) 10 (snd private_object)) = 0
   \<and> \<not> (rsaIsValid (fst (snd (rsaLoadDER sim_lib (fst private_object) (Some der_prefix) 10
                                   (snd private_object)))) = 0
        \<and> rsaIsPrivate (fst (snd (rsaLoadDER sim_lib (fst private_object) (Some der_prefix) 10
                                       (snd private_object)))) = 0)"
  by (simp add: obj_defs rsa_defs sim_defs)

text \<open>
  Claim C6, as amended. The claim says that after \<open>rsaGenerate\<close> has failed on a
  requested length of 0 or less, \<open>isvalid\<close> is false and later Sign, Verify and GetDER
  calls return zero. \<open>rsaSign\<close>, \<open>rsaVerify\<close> and \<open>rsaGetDER\<close> do not read
  \<open>isvalid\<close>. What holds: with a requested length of 0 or less \<open>rsaGenerate\<close> returns
  failure without calling the library, \<open>isvalid\<close> is false afterwards and nothing else
  has changed, so Sign, Verify and GetDER return what they would have returned before the
  call.
\<close>

theorem rsaGenerate_nonpositive_size:
  assumes "key_size \<le> 0"
  shows "rsaGenerate L rsa key_size w = (0, rsa\<lparr>isvalid := 0\<rparr>, w)
         \<and> rsaIsValid (fst (snd (rsaGenerate L rsa key_size w))) = 0
         \<and> fst (rsaSign L (fst (snd (rsaGenerate L rsa key_size w))) sign_len in_buf in_len w)
             = fst (rsaSign L rsa sign_len in_buf in_len w)
         \<and> fst (rsaVerify L (fst (snd (rsaGenerate L rsa key_size w))) sign_buf sign_len in_buf in_len w)
             = fst (rsaVerify L rsa sign_buf sign_len in_buf in_len w)
         \<and> rsaGetDER L buf_size (fst (snd (rsaGenerate L rsa key_size w))) w
             = rsaGetDER L buf_size rsa w"
  using assms
  by (simp add: rsaGenerate_def rsaIsValid_def rsaSign_def rsaVerify_def rsaGetDER_def
        rsaGetDERSize_def rsaSignSize_def Let_def split: prod.splits)

theorem rsaGenerate_nonpositive_size_witness:
  "(0::int) \<le> 0
   \<and> rsaGenerate sim_lib (fst created_object) 0 (snd created_object)
       = (0, (fst created_object)\<lparr>isvalid := 0\<rparr>, snd created_object)
   \<and> rsaIsValid (fst (snd (rsaGenerate sim_lib (fst created_object) 0 (snd created_object)))) = 0"
proof -
  have h: "(0::int) \<le> 0" by simp
  show ?thesis
    using h rsaGenerate_nonpositive_size
      [OF h, where L = sim_lib and rsa = "fst created_object" and w = "snd created_object"]
    by blast
qed

text \<open>
  Claim C6 as stated fails: on an object holding a private key, \<open>rsaGenerate\<close> with
  length 0 fails and clears \<open>isvalid\<close>; the next Sign returns a signature of 256 bytes,
  the next Verify of that signature returns 1 and the next GetDER returns 270 bytes.
\<close>

theorem output_after_failed_Generate:
  "fst (call sim_lib (Generate 0) private_object) = Ret 0
   \<and> rsaIsValid (fst (snd (call sim_lib (Generate 0) private_object))) = 0
   \<and> fst (call sim_lib (Sign 256 hello 5) (snd (call sim_lib (Generate 0) private_object)))
       = RetBuf 256 (rev hello)
   \<and> fst (call sim_lib (Verify (rev hello) 256 hello 5)
            (snd (call sim_lib (Generate 0) private_object))) = Ret 1
   \<and> fst (rsaGetDER sim_lib 271 (fst (snd (call sim_lib (Generate 0) private_object)))
            (snd (snd (call sim_lib (Generate 0) private_object)))) = 270"
  by (simp add: obj_defs rsa_defs sim_defs)

text \<open>
  Claim C7. From every state \<open>rsaReset\<close> sets \<open>isvalid\<close> and \<open>isprivate\<close> to false and
  leaves the key handle, the digest context and the scratch value as they are; it calls
  no primitive, so the world is unchanged: nothing is released or allocated.
\<close>

theorem rsaReset_effect:
  "rsaIsValid (rsaReset rsa) = 0 \<and> rsaIsPrivate (rsaReset rsa) = 0
   \<and> key (rsaReset rsa) = key rsa \<and> bn (rsaReset rsa) = bn rsa \<and> md (rsaReset rsa) = md rsa
   \<and> call L Reset (rsa, w) = (Void, rsaReset rsa, w)"
  by (simp add: rsaReset_def rsaIsValid_def rsaIsPrivate_def)

text \<open>
  Claim C8. \<open>rsaGetFingerprint\<close> encodes into a buffer of \<open>RSA_MAXSIZE\<close> bytes, so
  whenever the encoded size of the public key is greater than or equal to \<open>RSA_MAXSIZE\<close>
  or less than or equal to \<open>RSA_MINSIZE\<close> it returns 0, whatever capacity the caller
  supplies; the digest is not computed and the world is unchanged.
\<close>

theorem rsaGetFingerprint_size_bounds:
  assumes "RSA_MAXSIZE L \<le> rsaGetDERSize L rsa w \<or> rsaGetDERSize L rsa w \<le> RSA_MINSIZE L"
  shows "fst (fst (rsaGetFingerprint L buf_size rsa w)) = 0
         \<and> rsaGetFingerprint L buf_size rsa w = ((0, []), w)"
  using assms by (auto simp: rsaGetFingerprint_def rsaGetDER_def Let_def)

theorem rsaGetFingerprint_size_bounds_witness:
  "RSA_MAXSIZE sim_lib \<le> rsaGetDERSize sim_lib (fst large_key_object) (snd large_key_object)
   \<and> rsaGetDERSize sim_lib (fst large_key_object) (snd large_key_object) = 526
   \<and> fst (fst (rsaGetFingerprint sim_lib 32 (fst large_key_object) (snd large_key_object))) = 0"
proof -
  have s: "rsaGetDERSize sim_lib (fst large_key_object) (snd large_key_object) = 526"
    by (simp add: obj_defs rsa_defs sim_defs)
  then have h: "RSA_MAXSIZE sim_lib \<le> rsaGetDERSize sim_lib (fst large_key_object) (snd large_key_object)
           \<or> rsaGetDERSize sim_lib (fst large_key_object) (snd large_key_object) \<le> RSA_MINSIZE sim_lib"
    by simp
  show ?thesis
    using s rsaGetFingerprint_size_bounds [OF h, of 32] by simp
qed

text \<open>
  Claim C9. Sign, Verify and GetDER do not modify the flags: after a call of any of them
  \<open>isvalid\<close> and \<open>isprivate\<close> have the values they had before.
\<close>

theorem read_side_keeps_flags:
  "rsaIsValid (fst (snd (call L (Sign sign_len in_buf in_len) (rsa, w)))) = rsaIsValid rsa
   \<and> rsaIsPrivate (fst (snd (call L (Sign sign_len in_buf in_len) (rsa, w)))) = rsaIsPrivate rsa
   \<and> rsaIsValid (fst (snd (call L (Verify sign_buf sign_len in_buf in_len) (rsa, w))))
       = rsaIsValid rsa
   \<and> rsaIsPrivate (fst (snd (call L (Verify sign_buf sign_len in_buf in_len) (rsa, w))))
       = rsaIsPrivate rsa
   \<and> rsaIsValid (fst (snd (call L (GetDER buf_size) (rsa, w)))) = rsaIsValid rsa
   \<and> rsaIsPrivate (fst (snd (call L (GetDER buf_size) (rsa, w)))) = rsaIsPrivate rsa"
  using rsaSign_object [of L rsa sign_len in_buf in_len w]
    rsaVerify_object [of L rsa sign_buf sign_len in_buf in_len w]
  by (simp add: split_beta)

text \<open>
  Claim C10. With a null input pointer and any declared length, \<open>rsaLoadDER\<close>,
  \<open>rsaLoadPEM\<close> and \<open>rsaLoadPrivatePEM\<close> return failure; the world is unchanged, since
  no primitive is called and the input is not read; \<open>isvalid\<close> is false afterwards.
\<close>

theorem null_input_rejected:
  "rsaLoadDER L rsa None n w = (0, rsa\<lparr>isvalid := 0\<rparr>, w)
   \<and> rsaLoadPEM L rsa None n w = (0, rsa\<lparr>isvalid := 0\<rparr>, w)
   \<and> rsaLoadPrivatePEM L rsa None n w = (0, rsa\<lparr>isvalid := 0\<rparr>, w)
   \<and> rsaIsValid (rsa\<lparr>isvalid := 0\<rparr>) = 0"
  by (simp add: rsaLoadDER_def rsaLoadPEM_def rsaLoadPrivatePEM_def rsaIsValid_def Let_def)

end
